theory Spec2Isabelle
  imports Complex_Main "HOL-Library.Multiset"
begin

section \<open>Text model\<close>

text \<open>
  The service works on JavaScript strings. A text is modelled as a \<open>string\<close>: the list of
  the bytes of its UTF-8 encoding, so that an ASCII character is one \<open>char\<close> and an emoji
  is the byte sequence of its code points. The regular expressions of the source have no
  \<open>u\<close> flag and their emoji alternatives are whole code points, so matching them on bytes
  and on UTF-16 code units selects the same occurrences in a well-formed text.

  Three library operations are modelled on their ASCII behaviour, which is exact on ASCII
  text: \<open>\s\<close> and \<open>trim()\<close> know the six ASCII white-space characters,
  \<open>toLowerCase()\<close> maps \<open>A-Z\<close> to \<open>a-z\<close> and leaves every other byte alone, and the
  \<open>i\<close> flag folds the case of ASCII letters only (as ECMAScript's canonicalisation does
  for an ASCII pattern). \<open>\w\<close> and \<open>\b\<close> are ASCII in ECMAScript itself.

  Scores are IEEE doubles in the source and exact rationals (\<open>rat\<close>) here: sums, products
  and quotients are the exact ones, without rounding.
\<close>

definition isWordChar :: "char \<Rightarrow> bool" where
  "isWordChar c =
     (let n = (of_char c :: int) in
      (48 \<le> n \<and> n \<le> 57) \<or> (65 \<le> n \<and> n \<le> 90) \<or> n = 95 \<or> (97 \<le> n \<and> n \<le> 122))"

definition isSpace :: "char \<Rightarrow> bool" where
  "isSpace c = (let n = (of_char c :: int) in (9 \<le> n \<and> n \<le> 13) \<or> n = 32)"

definition toLowerChar :: "char \<Rightarrow> char" where
  "toLowerChar c =
     (let n = (of_char c :: int) in if 65 \<le> n \<and> n \<le> 90 then char_of (n + 32) else c)"

definition toLowerCase :: "string \<Rightarrow> string" where
  "toLowerCase s = map toLowerChar s"

definition trim :: "string \<Rightarrow> string" where
  "trim s = rev (dropWhile isSpace (rev (dropWhile isSpace s)))"

definition startsWith :: "string \<Rightarrow> string \<Rightarrow> bool" where
  "startsWith p s = (take (length p) s = p)"

definition startsWithCI :: "string \<Rightarrow> string \<Rightarrow> bool" where
  "startsWithCI p s = (toLowerCase (take (length p) s) = toLowerCase p)"

text \<open>\<open>s.includes(p)\<close>, and \<open>/p/.test(s)\<close> for a pattern \<open>p\<close> without metacharacters.\<close>

fun includesStr :: "string \<Rightarrow> string \<Rightarrow> bool" where
  "includesStr [] p = (p = [])"
| "includesStr (c # cs) p = (startsWith p (c # cs) \<or> includesStr cs p)"

subsection \<open>Global regular-expression replacement\<close>

text \<open>
  A matcher stands for one regular expression: given the character before the current
  position (\<open>None\<close> at the start of the text) and the rest of the text, it returns the
  length of the match that starts here, \<open>0\<close> when there is none. Every pattern of the
  source matches at least one character, so \<open>0\<close> is free to mean "no match".

  \<open>replaceFrom\<close> is \<open>String.prototype.replace\<close> with the \<open>g\<close> flag: it scans from the
  left, replaces the match found at the leftmost position and resumes after it. The
  counter \<open>k\<close> is the number of characters of the current match still to be dropped; the
  character before a position is always the one of the original text.
\<close>

type_synonym matcher = "char option \<Rightarrow> string \<Rightarrow> nat"

fun replaceFrom :: "matcher \<Rightarrow> string \<Rightarrow> char option \<Rightarrow> nat \<Rightarrow> string \<Rightarrow> string" where
  "replaceFrom m r prev k [] = []"
| "replaceFrom m r prev k (c # cs) =
     (if 0 < k then replaceFrom m r (Some c) (k - 1) cs
      else let n = m prev (c # cs) in
           if n = 0 then c # replaceFrom m r (Some c) 0 cs
           else r @ replaceFrom m r (Some c) (n - 1) cs)"

definition replaceAll :: "matcher \<Rightarrow> string \<Rightarrow> string \<Rightarrow> string" where
  "replaceAll m r s = replaceFrom m r None 0 s"

text \<open>The number of matches \<open>s.match(regex)\<close> returns with the \<open>g\<close> flag (\<open>null\<close> is 0).\<close>

fun countFrom :: "matcher \<Rightarrow> char option \<Rightarrow> nat \<Rightarrow> string \<Rightarrow> nat" where
  "countFrom m prev k [] = 0"
| "countFrom m prev k (c # cs) =
     (if 0 < k then countFrom m (Some c) (k - 1) cs
      else let n = m prev (c # cs) in
           if n = 0 then countFrom m (Some c) 0 cs
           else 1 + countFrom m (Some c) (n - 1) cs)"

definition countMatches :: "matcher \<Rightarrow> string \<Rightarrow> nat" where
  "countMatches m s = countFrom m None 0 s"

text \<open>\<open>\b\<close>: exactly one of the two neighbouring characters is a word character.\<close>

definition wordBoundary :: "char option \<Rightarrow> string \<Rightarrow> bool" where
  "wordBoundary prev s =
     ((case prev of None \<Rightarrow> False | Some p \<Rightarrow> isWordChar p)
        \<noteq> (case s of [] \<Rightarrow> False | c # _ \<Rightarrow> isWordChar c))"

text \<open>
  \<open>/\b(w1|...|wn)\s+/gi\<close>: the alternatives are tried in order, and one that is not
  followed by white space is given up for the next one; \<open>\s+\<close> is greedy.
\<close>

fun altWordSpaces :: "string list \<Rightarrow> string \<Rightarrow> nat" where
  "altWordSpaces [] s = 0"
| "altWordSpaces (w # ws) s =
     (if startsWithCI w s then
        (let n = length (takeWhile isSpace (drop (length w) s)) in
         if 0 < n then length w + n else altWordSpaces ws s)
      else altWordSpaces ws s)"

definition matchWordSpaces :: "string list \<Rightarrow> matcher" where
  "matchWordSpaces ws prev s = (if wordBoundary prev s then altWordSpaces ws s else 0)"

text \<open>\<open>/w1|...|wn/\<close> for literal alternatives, with the \<open>i\<close> flag when \<open>ci\<close> is set.\<close>

fun matchAlt :: "bool \<Rightarrow> string list \<Rightarrow> matcher" where
  "matchAlt ci [] prev s = 0"
| "matchAlt ci (w # ws) prev s =
     (if (if ci then startsWithCI w s else startsWith w s) then length w
      else matchAlt ci ws prev s)"

text \<open>\<open>/[c]{n,}/\<close>: a greedy run of at least \<open>n\<close> copies of \<open>c\<close>.\<close>

definition matchRun :: "char \<Rightarrow> nat \<Rightarrow> matcher" where
  "matchRun c n prev s = (let k = length (takeWhile (\<lambda>x. x = c) s) in if n \<le> k then k else 0)"

text \<open>\<open>/\bw\b/\<close> for a word \<open>w\<close> of letters.\<close>

definition matchWholeWord :: "string \<Rightarrow> matcher" where
  "matchWholeWord w prev s =
     (if startsWith w s then
        (if wordBoundary prev s
            \<and> wordBoundary (if w = [] then prev else Some (last w)) (drop (length w) s)
         then length w else 0)
      else 0)"

text \<open>
  \<open>s.split(/[...]+/)\<close> for a character class: the pieces between the maximal runs of
  separator characters, with the empty pieces at both ends that JavaScript keeps.
\<close>

fun splitRuns :: "(char \<Rightarrow> bool) \<Rightarrow> string \<Rightarrow> string list" where
  "splitRuns sep [] = [[]]"
| "splitRuns sep (c # cs) =
     (if sep c then (case cs of d # _ \<Rightarrow> if sep d then splitRuns sep cs else [] # splitRuns sep cs
                      | [] \<Rightarrow> [] # splitRuns sep cs)
      else (case splitRuns sep cs of p # ps \<Rightarrow> (c # p) # ps | [] \<Rightarrow> [[c]]))"

section \<open>The normalizer: \<open>preprocessText\<close>\<close>

definition negationWords :: "string list" where
  "negationWords = [''not'', ''no'', ''never'', ''nothing'', ''nowhere'', ''nobody'', ''none'',
     ''neither'', ''nor'']"

definition intensifierWords :: "string list" where
  "intensifierWords = [''very'', ''extremely'', ''incredibly'', ''absolutely'', ''totally'',
     ''completely'']"

definition diminisherWords :: "string list" where
  "diminisherWords = [''slightly'', ''somewhat'', ''rather'', ''quite'', ''fairly'', ''pretty'']"

definition apos :: "string" where
  "apos = [CHR 0x27]"

definition contractions :: "(string \<times> string) list" where
  "contractions =
     [(''won'' @ apos @ ''t'', ''will not''), (''can'' @ apos @ ''t'', ''cannot''),
      (''n'' @ apos @ ''t'', '' not''),
      (apos @ ''re'', '' are''), (apos @ ''ve'', '' have''), (apos @ ''ll'', '' will''),
      (apos @ ''d'', '' would''),
      (apos @ ''m'', '' am''), (''it'' @ apos @ ''s'', ''it is''),
      (''that'' @ apos @ ''s'', ''that is'')]"

text \<open>An emoji of the block U+1Fxxx, by the last three bytes of its UTF-8 encoding.\<close>

definition emo :: "char \<Rightarrow> char \<Rightarrow> char \<Rightarrow> string" where
  "emo a b c = [CHR 0xF0, a, b, c]"

definition emojiPatterns :: "(string list \<times> string) list" where
  "emojiPatterns =
     [([emo (CHR 0x9F) (CHR 0x98) (CHR 0x8A), emo (CHR 0x9F) (CHR 0x98) (CHR 0x80),
        emo (CHR 0x9F) (CHR 0x98) (CHR 0x83), emo (CHR 0x9F) (CHR 0x98) (CHR 0x84),
        emo (CHR 0x9F) (CHR 0x98) (CHR 0x81), emo (CHR 0x9F) (CHR 0x99) (CHR 0x82),
        emo (CHR 0x9F) (CHR 0x98) (CHR 0x8C), emo (CHR 0x9F) (CHR 0x98) (CHR 0x8D),
        emo (CHR 0x9F) (CHR 0xA5) (CHR 0xB0), emo (CHR 0x9F) (CHR 0x98) (CHR 0x98),
        emo (CHR 0x9F) (CHR 0xA4) (CHR 0x97)], '' POSITIVE_EMOJI ''),
      ([emo (CHR 0x9F) (CHR 0x98) (CHR 0xA2), emo (CHR 0x9F) (CHR 0x98) (CHR 0xAD),
        emo (CHR 0x9F) (CHR 0x98) (CHR 0x9E), emo (CHR 0x9F) (CHR 0x98) (CHR 0x94),
        emo (CHR 0x9F) (CHR 0x98) (CHR 0x9F), emo (CHR 0x9F) (CHR 0x98) (CHR 0x95),
        emo (CHR 0x9F) (CHR 0x99) (CHR 0x81),
        [CHR 0xE2, CHR 0x98, CHR 0xB9, CHR 0xEF, CHR 0xB8, CHR 0x8F],
        emo (CHR 0x9F) (CHR 0x98) (CHR 0xB0), emo (CHR 0x9F) (CHR 0x98) (CHR 0xA8)],
       '' NEGATIVE_EMOJI ''),
      ([emo (CHR 0x9F) (CHR 0x98) (CHR 0x90), emo (CHR 0x9F) (CHR 0x98) (CHR 0x91),
        emo (CHR 0x9F) (CHR 0xA4) (CHR 0x94), emo (CHR 0x9F) (CHR 0x98) (CHR 0xB6),
        emo (CHR 0x9F) (CHR 0x99) (CHR 0x84), emo (CHR 0x9F) (CHR 0x98) (CHR 0x8F)],
       '' NEUTRAL_EMOJI ''),
      ([emo (CHR 0x9F) (CHR 0x98) (CHR 0xA1), emo (CHR 0x9F) (CHR 0x98) (CHR 0xA0),
        emo (CHR 0x9F) (CHR 0xA4) (CHR 0xAC), emo (CHR 0x9F) (CHR 0x98) (CHR 0xA4),
        emo (CHR 0x9F) (CHR 0x92) (CHR 0xA2)], '' ANGER_EMOJI ''),
      ([[CHR 0xE2, CHR 0x9D, CHR 0xA4, CHR 0xEF, CHR 0xB8, CHR 0x8F],
        emo (CHR 0x9F) (CHR 0x92) (CHR 0x95), emo (CHR 0x9F) (CHR 0x92) (CHR 0x96),
        emo (CHR 0x9F) (CHR 0x92) (CHR 0x97), emo (CHR 0x9F) (CHR 0x92) (CHR 0x9D),
        emo (CHR 0x9F) (CHR 0xA7) (CHR 0xA1), emo (CHR 0x9F) (CHR 0x92) (CHR 0x9B),
        emo (CHR 0x9F) (CHR 0x92) (CHR 0x9A), emo (CHR 0x9F) (CHR 0x92) (CHR 0x99),
        emo (CHR 0x9F) (CHR 0x92) (CHR 0x9C)], '' LOVE_EMOJI '')]"

definition positiveEmoticons :: "string list" where
  "positiveEmoticons = ['':)'', '':-)'', '':]'', '':D'', '':-D'', ''=)'', ''=D'']"

definition negativeEmoticons :: "string list" where
  "negativeEmoticons = ['':('', '':-('', '':['', ''=('', ''D:'']"

definition neutralEmoticons :: "string list" where
  "neutralEmoticons = ['':|'', '':-|'', ''=|'']"

definition preprocessText :: "string \<Rightarrow> string" where
  "preprocessText text =
     (let processed = trim text;
          processed = replaceAll (matchWordSpaces negationWords) ''NOT_'' processed;
          processed = replaceAll (matchWordSpaces intensifierWords) ''INTENSIFIER_'' processed;
          processed = replaceAll (matchWordSpaces diminisherWords) ''DIMINISHER_'' processed;
          processed = foldl (\<lambda>p (contraction, expansion).
                               replaceAll (matchAlt True [contraction]) expansion p)
                        processed contractions;
          processed = replaceAll (matchRun (CHR ''!'') 2) '' EXCITEMENT '' processed;
          processed = replaceAll (matchRun (CHR ''?'') 2) '' CONFUSION '' processed;
          processed = replaceAll (matchRun (CHR ''.'') 3) '' PAUSE '' processed;
          processed = foldl (\<lambda>p (pattern, replacement).
                               replaceAll (matchAlt False pattern) replacement p)
                        processed emojiPatterns;
          processed = replaceAll (matchAlt False positiveEmoticons) '' POSITIVE_EMOTICON '' processed;
          processed = replaceAll (matchAlt False negativeEmoticons) '' NEGATIVE_EMOTICON '' processed;
          processed = replaceAll (matchAlt False neutralEmoticons) '' NEUTRAL_EMOTICON '' processed
      in processed)"

section \<open>Classifier responses and the service\<close>

record ApiResponse =
  label :: string
  score :: rat

record TextFeatures =
  positiveScore :: rat
  negativeScore :: rat
  neutralScore :: rat
  hasNegation :: bool
  hasIntensifier :: bool
  hasDiminisher :: bool

text \<open>
  The fields of \<open>SentimentAnalysisService\<close>. The constructor sets the dummy token;
  \<open>useEnsemble\<close> is initialised to true and no method assigns it.
\<close>

record Service =
  apiToken :: string
  useEnsemble :: bool

definition newService :: "Service" where
  "newService = \<lparr>apiToken = ''hf_dummy_token'', useEnsemble = True\<rparr>"

definition setApiToken :: "string \<Rightarrow> Service \<Rightarrow> Service" where
  "setApiToken token svc = svc\<lparr>apiToken := token\<rparr>"

text \<open>
  \<open>Array.prototype.sort((a, b) => b.score - a.score)\<close>: a stable sort, descending by
  score (\<open>sort_key\<close> is a stable insertion sort).
\<close>

definition sortByScore :: "ApiResponse list \<Rightarrow> ApiResponse list" where
  "sortByScore rs = sort_key (\<lambda>r. - score r) rs"

section \<open>The local estimator\<close>

definition positiveWords :: "string list" where
  "positiveWords =
     [''excellent'', ''amazing'', ''wonderful'', ''fantastic'', ''perfect'', ''outstanding'',
      ''brilliant'', ''superb'', ''magnificent'', ''delightful'', ''awesome'', ''great'',
      ''good'', ''love'', ''like'', ''enjoy'', ''happy'', ''pleased'', ''satisfied'',
      ''impressive'', ''remarkable'', ''exceptional'', ''marvelous'', ''terrific'']"

definition negativeWords :: "string list" where
  "negativeWords =
     [''terrible'', ''awful'', ''horrible'', ''disgusting'', ''disappointing'', ''pathetic'',
      ''atrocious'', ''dreadful'', ''appalling'', ''abysmal'', ''bad'', ''hate'', ''dislike'',
      ''annoying'', ''frustrating'', ''useless'', ''worthless'', ''poor'', ''worst'',
      ''unacceptable'', ''inadequate'', ''inferior'', ''defective'', ''faulty'']"

definition neutralWords :: "string list" where
  "neutralWords =
     [''okay'', ''average'', ''normal'', ''standard'', ''typical'', ''regular'',
      ''ordinary'', ''common'', ''usual'', ''basic'', ''moderate'', ''fair'']"

text \<open>
  One \<open>forEach\<close> over a word list: every word with at least one match of \<open>\bword\b\<close>
  in the lower-cased text adds its number of matches times the weight.
\<close>

definition countWords :: "string list \<Rightarrow> rat \<Rightarrow> string \<Rightarrow> rat \<Rightarrow> rat" where
  "countWords ws weight lowerText start =
     foldl (\<lambda>acc word.
              let matches = countMatches (matchWholeWord word) lowerText in
              if 0 < matches then acc + of_nat matches * weight else acc)
       start ws"

text \<open>The result is the triple \<open>(positive, negative, neutral)\<close>.\<close>

definition analyzeSentenceStructure :: "string \<Rightarrow> rat \<times> rat \<times> rat" where
  "analyzeSentenceStructure sentence =
     (let positive = 0; negative = 0; neutral = 0;
          (positive, negative) =
             (if includesStr sentence ''better than'' \<or> includesStr sentence ''worse than''
              then ((if includesStr sentence ''better than'' then positive + 0.2 else positive),
                    (if includesStr sentence ''worse than'' then negative + 0.2 else negative))
              else (positive, negative));
          neutral = (if includesStr sentence ''if'' \<or> includesStr sentence ''would''
                     then neutral + 0.1 else neutral);
          neutral = (if includesStr sentence ''?'' then neutral + 0.1 else neutral)
      in (positive, negative, neutral))"

definition extractTextFeatures :: "string \<Rightarrow> string \<Rightarrow> TextFeatures" where
  "extractTextFeatures processedText originalText =
     (let lowerText = toLowerCase originalText;
          lowerProcessed = toLowerCase processedText;
          positiveScore = countWords positiveWords 0.4 lowerText 0;
          negativeScore = countWords negativeWords 0.4 lowerText 0;
          neutralScore = countWords neutralWords 0.3 lowerText 0.3;
          hasNegation = includesStr lowerProcessed ''NOT_'';
          hasIntensifier = includesStr lowerProcessed ''INTENSIFIER_'';
          hasDiminisher = includesStr lowerProcessed ''DIMINISHER_'';
          hasPositiveEmoji = (includesStr lowerProcessed ''POSITIVE_EMOJI''
                              \<or> includesStr lowerProcessed ''LOVE_EMOJI''
                              \<or> includesStr lowerProcessed ''POSITIVE_EMOTICON'');
          hasNegativeEmoji = (includesStr lowerProcessed ''NEGATIVE_EMOJI''
                              \<or> includesStr lowerProcessed ''ANGER_EMOJI''
                              \<or> includesStr lowerProcessed ''NEGATIVE_EMOTICON'');
          hasExcitement = includesStr lowerProcessed ''EXCITEMENT'';
          positiveScore = (if hasPositiveEmoji then positiveScore + 0.5 else positiveScore);
          negativeScore = (if hasNegativeEmoji then negativeScore + 0.5 else negativeScore);
          (positiveScore, negativeScore) =
             (if hasExcitement then
                (if positiveScore > negativeScore then (positiveScore + 0.3, negativeScore)
                 else (positiveScore, negativeScore + 0.3))
              else (positiveScore, negativeScore));
          sentences = filter (\<lambda>s. 0 < length (trim s))
                        (splitRuns (\<lambda>c. c \<in> set ''.!?'') originalText);
          (positiveScore, negativeScore, neutralScore) =
             (if 1 < length sentences then
                foldl (\<lambda>(p, n, u) sentence.
                         let (sp, sn, su) = analyzeSentenceStructure sentence
                         in (p + sp, n + sn, u + su))
                  (positiveScore, negativeScore, neutralScore) sentences
              else (positiveScore, negativeScore, neutralScore))
      in \<lparr>positiveScore = positiveScore, negativeScore = negativeScore,
          neutralScore = neutralScore, hasNegation = hasNegation,
          hasIntensifier = hasIntensifier, hasDiminisher = hasDiminisher\<rparr>)"

text \<open>
  \<open>getEnhancedMockSentiment\<close> is written in two parts: \<open>scoreFeatures\<close> is its body after
  the call of \<open>extractTextFeatures\<close> (the context adjustments, the guard on a zero total,
  the normalisation and the sort), as a function of the features.
\<close>

definition defaultDistribution :: "ApiResponse list" where
  "defaultDistribution =
     [\<lparr>label = ''LABEL_1'', score = 0.6\<rparr>, \<lparr>label = ''LABEL_2'', score = 0.25\<rparr>,
      \<lparr>label = ''LABEL_0'', score = 0.15\<rparr>]"

definition adjustScores :: "TextFeatures \<Rightarrow> rat \<times> rat \<times> rat" where
  "adjustScores features =
     (let positiveScore = positiveScore features;
          negativeScore = negativeScore features;
          neutralScore = neutralScore features;
          (positiveScore, negativeScore) =
             (if hasNegation features then (negativeScore, positiveScore)
              else (positiveScore, negativeScore));
          (positiveScore, negativeScore) =
             (if hasIntensifier features then
                (if positiveScore > negativeScore then (positiveScore * 1.3, negativeScore)
                 else (positiveScore, negativeScore * 1.3))
              else (positiveScore, negativeScore));
          (positiveScore, negativeScore, neutralScore) =
             (if hasDiminisher features
              then (positiveScore * 0.8, negativeScore * 0.8, neutralScore * 1.2)
              else (positiveScore, negativeScore, neutralScore))
      in (positiveScore, negativeScore, neutralScore))"

definition scoreFeatures :: "TextFeatures \<Rightarrow> ApiResponse list" where
  "scoreFeatures features =
     (let (positiveScore, negativeScore, neutralScore) = adjustScores features;
          total = positiveScore + negativeScore + neutralScore
      in if total = 0 then defaultDistribution
         else sortByScore
                [\<lparr>label = ''LABEL_2'', score = positiveScore / total\<rparr>,
                 \<lparr>label = ''LABEL_0'', score = negativeScore / total\<rparr>,
                 \<lparr>label = ''LABEL_1'', score = neutralScore / total\<rparr>])"

definition getEnhancedMockSentiment :: "string \<Rightarrow> string \<Rightarrow> ApiResponse list" where
  "getEnhancedMockSentiment processedText originalText =
     scoreFeatures (extractTextFeatures processedText originalText)"

section \<open>Label reconciliation and ensemble fusion\<close>

text \<open>
  \<open>labelMap[label] || null\<close>: the lookup of an own key of the table. (The names every
  JavaScript object inherits, such as \<open>constructor\<close>, are not labels of a classifier
  and are outside this model.)
\<close>

definition normalizeLabelToStandard :: "string \<Rightarrow> string option" where
  "normalizeLabelToStandard l =
     map_of
       [(''LABEL_0'', ''LABEL_0''), (''LABEL_1'', ''LABEL_1''), (''LABEL_2'', ''LABEL_2''),
        (''negative'', ''LABEL_0''), (''neutral'', ''LABEL_1''), (''positive'', ''LABEL_2''),
        (''1 star'', ''LABEL_0''), (''2 stars'', ''LABEL_0''), (''3 stars'', ''LABEL_1''),
        (''4 stars'', ''LABEL_2''), (''5 stars'', ''LABEL_2'')] l"

text \<open>\<open>combinedScores[k] += v\<close> on the object with the three keys, kept in insertion order.\<close>

definition addScore :: "string \<Rightarrow> rat \<Rightarrow> (string \<times> rat) list \<Rightarrow> (string \<times> rat) list" where
  "addScore k v combinedScores = map (\<lambda>(k', s). if k' = k then (k', s + v) else (k', s)) combinedScores"

definition accumulate :: "rat \<Rightarrow> (string \<times> rat) list \<Rightarrow> ApiResponse list \<Rightarrow> (string \<times> rat) list" where
  "accumulate weight combinedScores results =
     foldl (\<lambda>cs result.
              case normalizeLabelToStandard (label result) of
                Some normalizedLabel \<Rightarrow> addScore normalizedLabel (score result * weight) cs
              | None \<Rightarrow> cs)
       combinedScores results"

definition combineEnsembleResults :: "ApiResponse list \<Rightarrow> ApiResponse list \<Rightarrow> ApiResponse list" where
  "combineEnsembleResults primary secondary =
     (let combinedScores = [(''LABEL_0'', 0), (''LABEL_1'', 0), (''LABEL_2'', 0)];
          combinedScores = accumulate 0.7 combinedScores primary;
          combinedScores = accumulate 0.3 combinedScores secondary
      in sortByScore (map (\<lambda>(l, s). \<lparr>label = l, score = s\<rparr>) combinedScores))"

definition normalizeSecondaryModelResults :: "ApiResponse list \<Rightarrow> ApiResponse list" where
  "normalizeSecondaryModelResults results =
     filter (\<lambda>result. startsWith ''LABEL_'' (label result))
       (map (\<lambda>result.
               \<lparr>label = (case normalizeLabelToStandard (label result) of
                            Some normalizedLabel \<Rightarrow> normalizedLabel
                          | None \<Rightarrow> label result),
                score = score result\<rparr>)
          results)"

section \<open>The gateway and \<open>analyzeSentiment\<close>\<close>

text \<open>
  The remote classifiers are a parameter: \<open>remote modelUrl text token\<close> is what the POST
  to \<open>modelUrl\<close> yields, \<open>Some r\<close> when it answers with \<open>response.data[0] = r\<close> and
  \<open>None\<close> when it throws (time-out, network, status) or has no first element.
  \<open>callSentimentAPI\<close> turns every failure into the empty outcome.
\<close>

type_synonym remote = "string \<Rightarrow> string \<Rightarrow> string \<Rightarrow> ApiResponse list option"

definition SENTIMENT_MODELS_primary :: "string" where
  "SENTIMENT_MODELS_primary =
     ''https://api-inference.huggingface.co/models/cardiffnlp/twitter-roberta-base-sentiment-latest''"

definition SENTIMENT_MODELS_secondary :: "string" where
  "SENTIMENT_MODELS_secondary =
     ''https://api-inference.huggingface.co/models/nlptown/bert-base-multilingual-uncased-sentiment''"

definition callSentimentAPI :: "Service \<Rightarrow> remote \<Rightarrow> string \<Rightarrow> string \<Rightarrow> ApiResponse list" where
  "callSentimentAPI svc remote text modelUrl =
     (case remote modelUrl text (apiToken svc) of Some r \<Rightarrow> r | None \<Rightarrow> [])"

text \<open>
  \<open>analyzeSentiment\<close> returns the list of endpoints it posted to, in order, together
  with its result. Nothing inside its \<open>try\<close> block throws in this model, so the
  \<open>catch\<close> has no branch.
\<close>

definition analyzeSentiment :: "Service \<Rightarrow> remote \<Rightarrow> string \<Rightarrow> string list \<times> ApiResponse list" where
  "analyzeSentiment svc remote text =
     (let processedText = preprocessText text in
      if apiToken svc = [] \<or> apiToken svc = ''hf_dummy_token''
      then ([], getEnhancedMockSentiment processedText text)
      else if useEnsemble svc then
        (let primaryResult = callSentimentAPI svc remote processedText SENTIMENT_MODELS_primary;
             secondaryResult = callSentimentAPI svc remote processedText SENTIMENT_MODELS_secondary;
             posted = [SENTIMENT_MODELS_primary, SENTIMENT_MODELS_secondary]
         in if 0 < length primaryResult \<and> 0 < length secondaryResult
            then (posted, combineEnsembleResults primaryResult secondaryResult)
            else if 0 < length primaryResult then (posted, primaryResult)
            else if 0 < length secondaryResult
            then (posted, normalizeSecondaryModelResults secondaryResult)
            else (posted, getEnhancedMockSentiment processedText text))
      else
        (let result = callSentimentAPI svc remote processedText SENTIMENT_MODELS_primary
         in if 0 < length result then ([SENTIMENT_MODELS_primary], result)
            else ([SENTIMENT_MODELS_primary], getEnhancedMockSentiment processedText text)))"

text \<open>
  \<open>analyzeBatch\<close>: the \<open>for\<close> loop over the start index \<open>i\<close> of each group of
  \<open>batchSize = 3\<close> texts; \<open>Promise.all\<close> returns the results of a group in the order of
  its promises. The pause between groups has no effect on the result.
\<close>

function analyzeBatch_loop ::
  "Service \<Rightarrow> remote \<Rightarrow> string list \<Rightarrow> nat \<Rightarrow> ApiResponse list list \<Rightarrow> ApiResponse list list" where
  "analyzeBatch_loop svc remote texts i results =
     (if i < length texts then
        (let batch = take 3 (drop i texts);
             batchResults = map (\<lambda>text. snd (analyzeSentiment svc remote text)) batch
         in analyzeBatch_loop svc remote texts (i + 3) (results @ batchResults))
      else results)"
  by pat_completeness auto
termination
  by (relation "measure (\<lambda>(svc, remote, texts, i, results). length texts - i)") auto

declare analyzeBatch_loop.simps [simp del]

definition analyzeBatch :: "Service \<Rightarrow> remote \<Rightarrow> string list \<Rightarrow> ApiResponse list list" where
  "analyzeBatch svc remote texts = analyzeBatch_loop svc remote texts 0 []"

section \<open>The keyword extractor\<close>

definition stopWords :: "string list" where
  "stopWords =
     [''the'', ''a'', ''an'', ''and'', ''or'', ''but'', ''in'', ''on'', ''at'', ''to'', ''for'',
      ''of'', ''with'', ''by'', ''this'', ''that'', ''these'', ''those'', ''i'', ''you'', ''he'',
      ''she'', ''it'', ''we'', ''they'', ''am'', ''is'', ''are'', ''was'', ''were'', ''be'',
      ''been'', ''being'', ''have'', ''has'', ''had'', ''do'', ''does'', ''did'', ''will'',
      ''would'', ''could'', ''should'', ''may'', ''might'', ''must'', ''can'', ''shall'',
      ''not_'', ''intensifier_'', ''diminisher_'']"

definition sentimentKeywords_positive :: "string list" where
  "sentimentKeywords_positive =
     positiveWords @ [''positive_emoji'', ''love_emoji'', ''positive_emoticon'']"

definition sentimentKeywords_negative :: "string list" where
  "sentimentKeywords_negative =
     negativeWords @ [''negative_emoji'', ''anger_emoji'', ''negative_emoticon'']"

definition sentimentKeywords_neutral :: "string list" where
  "sentimentKeywords_neutral = neutralWords @ [''neutral_emoji'', ''neutral_emoticon'']"

text \<open>
  \<open>sentimentKeywords[sentiment]?.includes(word)\<close>: false for a sentiment that is no key
  of the table. (As for the labels, the names every JavaScript object inherits are not
  sentiments the caller passes and are outside this model.)
\<close>

definition sentimentKeywords :: "string \<Rightarrow> string list option" where
  "sentimentKeywords sentiment =
     map_of [(''positive'', sentimentKeywords_positive), (''negative'', sentimentKeywords_negative),
             (''neutral'', sentimentKeywords_neutral)] sentiment"

definition isSentimentKeyword :: "string \<Rightarrow> string \<Rightarrow> bool" where
  "isSentimentKeyword sentiment word =
     (case sentimentKeywords sentiment of Some ws \<Rightarrow> word \<in> set ws | None \<Rightarrow> False)"

text \<open>\<open>Array.prototype.indexOf\<close>: the first index, \<open>-1\<close> when absent.\<close>

fun indexOf :: "string list \<Rightarrow> string \<Rightarrow> int" where
  "indexOf [] w = -1"
| "indexOf (x # xs) w =
     (if x = w then 0 else (let i = indexOf xs w in if i < 0 then -1 else i + 1))"

text \<open>\<open>xs.slice(a, b)\<close> for \<open>0 \<le> a\<close> and \<open>0 \<le> b\<close>.\<close>

definition slice :: "'a list \<Rightarrow> int \<Rightarrow> int \<Rightarrow> 'a list" where
  "slice xs a b = take (nat b - nat a) (drop (nat a) xs)"

text \<open>\<open>[...new Set(xs)]\<close>: the elements in the order of their first occurrence.\<close>

definition uniqueOf :: "string list \<Rightarrow> string list" where
  "uniqueOf xs = foldl (\<lambda>seen x. if x \<in> set seen then seen else seen @ [x]) [] xs"

definition tokenize :: "string \<Rightarrow> string list" where
  "tokenize processedText =
     filter (\<lambda>word. 2 < length word) (splitRuns (\<lambda>c. \<not> isWordChar c) (toLowerCase processedText))"

definition isRelevant :: "string list \<Rightarrow> string \<Rightarrow> string \<Rightarrow> bool" where
  "isRelevant words sentiment word =
     (if word \<in> set stopWords then False
      else if isSentimentKeyword sentiment word then True
      else if 4 < length word then True
      else (let wordIndex = indexOf words word;
                context = slice words (max 0 (wordIndex - 2)) (wordIndex + 3)
            in list_ex (\<lambda>contextWord.
                          contextWord \<in> set sentimentKeywords_positive
                          \<or> contextWord \<in> set sentimentKeywords_negative
                          \<or> contextWord \<in> set sentimentKeywords_neutral) context))"

definition keywordScore :: "string list \<Rightarrow> string \<Rightarrow> string \<Rightarrow> rat" where
  "keywordScore words sentiment keyword =
     (let score = 0;
          score = (if isSentimentKeyword sentiment keyword then score + 3 else score);
          frequency = length (filter (\<lambda>w. w = keyword) words);
          score = score + of_nat frequency;
          score = score + min (of_nat (length keyword) / 10) 1
      in score)"

text \<open>
  \<open>extractKeywords\<close> in two parts: \<open>rankedKeywords\<close> is the array \<open>keywordScores\<close>
  after its sort, and \<open>extractKeywords\<close> applies \<open>slice(0, 6)\<close>, drops the scores and
  filters out the keywords with an underscore, in this order.
\<close>

definition rankedKeywords :: "string \<Rightarrow> string \<Rightarrow> (string \<times> rat) list" where
  "rankedKeywords text sentiment =
     (let processedText = preprocessText text;
          words = tokenize processedText;
          relevantWords = filter (isRelevant words sentiment) words;
          uniqueKeywords = uniqueOf relevantWords;
          keywordScores = map (\<lambda>keyword. (keyword, keywordScore words sentiment keyword)) uniqueKeywords
      in sort_key (\<lambda>(keyword, score). - score) keywordScores)"

definition extractKeywords :: "string \<Rightarrow> string \<Rightarrow> string list" where
  "extractKeywords text sentiment =
     filter (\<lambda>keyword. CHR ''_'' \<notin> set keyword)
       (map fst (take 6 (rankedKeywords text sentiment)))"

section \<open>Specification-level notions and example environments\<close>



text \<open>
  The outcomes of the fusion example: a primary classifier sure of a positive text, and a
  secondary classifier that answers with one star rating.
\<close>

definition examplePrimary :: "ApiResponse list" where
  "examplePrimary =
     [\<lparr>label = ''positive'', score = 0.9\<rparr>, \<lparr>label = ''neutral'', score = 0.05\<rparr>,
      \<lparr>label = ''negative'', score = 0.05\<rparr>]"

definition exampleSecondary :: "ApiResponse list" where
  "exampleSecondary = [\<lparr>label = ''5 stars'', score = 0.8\<rparr>]"

text \<open>
  A combined distribution: exactly three entries, one per canonical label, sorted
  descending by score, no score negative.
\<close>

definition isCombinedDistribution :: "ApiResponse list \<Rightarrow> bool" where
  "isCombinedDistribution r =
     (length r = 3 \<and> set (map label r) = {''LABEL_0'', ''LABEL_1'', ''LABEL_2''}
      \<and> sorted_wrt (\<lambda>a b. score b \<le> score a) r \<and> list_all (\<lambda>x. 0 \<le> score x) r)"

text \<open>
  A service with a credential, and four remote environments: both endpoints failing, both
  answering, only the primary answering, and only the secondary answering with the five
  star ratings of its model.
\<close>

definition tokenService :: "Service" where
  "tokenService = setApiToken ''hf_token'' newService"

definition failingRemote :: "remote" where
  "failingRemote modelUrl text token = None"

definition bothRemote :: "remote" where
  "bothRemote modelUrl text token =
     (if modelUrl = SENTIMENT_MODELS_primary then Some examplePrimary
      else if modelUrl = SENTIMENT_MODELS_secondary then Some exampleSecondary
      else None)"




text \<open>A text with seven sentiment words after a negated one.\<close>

definition crowdedText :: "string" where
  "crowdedText = ''not bad okay fair good love like hate poor''"

section \<open>Auxiliary notions for the proofs\<close>

text \<open>The upper-case ASCII letters.\<close>

definition isUpper :: "char \<Rightarrow> bool" where
  "isUpper c = (65 \<le> (of_char c :: int) \<and> (of_char c :: int) \<le> 90)"

text \<open>
  What \<open>extractTextFeatures\<close> computes, once the tests on the lower-cased normalized text
  are known to fail: the word counts, plus the sentence scores of a multi-sentence text.
\<close>

definition sentencesOf :: "string \<Rightarrow> string list" where
  "sentencesOf originalText =
     filter (\<lambda>s. 0 < length (trim s)) (splitRuns (\<lambda>c. c \<in> set ''.!?'') originalText)"

definition wordScores :: "string \<Rightarrow> rat \<times> rat \<times> rat" where
  "wordScores originalText =
     (countWords positiveWords 0.4 (toLowerCase originalText) 0,
      countWords negativeWords 0.4 (toLowerCase originalText) 0,
      countWords neutralWords 0.3 (toLowerCase originalText) 0.3)"

definition addSentences :: "rat \<times> rat \<times> rat \<Rightarrow> string list \<Rightarrow> rat \<times> rat \<times> rat" where
  "addSentences start sentences =
     foldl (\<lambda>(p, n, u) sentence.
              let (sp, sn, su) = analyzeSentenceStructure sentence
              in (p + sp, n + sn, u + su)) start sentences"

section \<open>Properties\<close>

subsection \<open>Sorting\<close>

lemma sortByScore_length: "length (sortByScore rs) = length rs"
  by (simp add: sortByScore_def)

lemma sortByScore_set: "set (sortByScore rs) = set rs"
  by (simp add: sortByScore_def)


lemma sortByScore_descending: "sorted_wrt (\<lambda>a b. score b \<le> score a) (sortByScore rs)"
proof -
  have "sorted (map (\<lambda>r. - score r) (sortByScore rs))"
    unfolding sortByScore_def by (rule sorted_sort_key)
  then show ?thesis
    by (simp add: sorted_map sorted_wrt_iff_nth_less)
qed


subsection \<open>Lower-cased text has no upper-case letter\<close>

lemma toLowerChar_not_upper: "\<not> isUpper (toLowerChar c)"
  by (auto simp: toLowerChar_def isUpper_def Let_def)

lemma startsWith_set: "startsWith p s \<Longrightarrow> set p \<subseteq> set s"
  unfolding startsWith_def by (metis set_take_subset)

lemma includesStr_set: "includesStr s p \<Longrightarrow> set p \<subseteq> set s"
proof (induction s)
  case Nil
  then show ?case by simp
next
  case (Cons a s)
  from Cons.prems have "startsWith p (a # s) \<or> includesStr s p" by simp
  then show ?case
  proof
    assume "startsWith p (a # s)"
    then show ?thesis by (rule startsWith_set)
  next
    assume "includesStr s p"
    then have "set p \<subseteq> set s" by (rule Cons.IH)
    then show ?thesis by auto
  qed
qed

lemma includesStr_lower:
  assumes "c \<in> set p" and "isUpper c"
  shows "\<not> includesStr (toLowerCase s) p"
proof
  assume "includesStr (toLowerCase s) p"
  then have "c \<in> set (toLowerCase s)"
    using assms(1) includesStr_set by blast
  then obtain d where "c = toLowerChar d"
    by (auto simp: toLowerCase_def)
  then show False
    using assms(2) toLowerChar_not_upper by simp
qed

lemma no_NOT: "includesStr (toLowerCase s) ''NOT_'' = False"
  using includesStr_lower [of "CHR ''N''" "''NOT_''" s] by (simp add: isUpper_def)

lemma no_INTENSIFIER: "includesStr (toLowerCase s) ''INTENSIFIER_'' = False"
  using includesStr_lower [of "CHR ''I''" "''INTENSIFIER_''" s] by (simp add: isUpper_def)

lemma no_DIMINISHER: "includesStr (toLowerCase s) ''DIMINISHER_'' = False"
  using includesStr_lower [of "CHR ''D''" "''DIMINISHER_''" s] by (simp add: isUpper_def)

lemma flags_never_set:
  "hasNegation (extractTextFeatures p t) = False"
  "hasIntensifier (extractTextFeatures p t) = False"
  "hasDiminisher (extractTextFeatures p t) = False"
  by (simp_all add: extractTextFeatures_def Let_def no_NOT no_INTENSIFIER no_DIMINISHER
      split: prod.splits)

subsection \<open>Bounds on the feature scores\<close>

lemma countWords_ge: "0 \<le> weight \<Longrightarrow> start \<le> countWords ws weight t start"
  unfolding countWords_def
proof (induction ws arbitrary: start)
  case Nil
  then show ?case by simp
next
  case (Cons w ws)
  let ?n = "countMatches (matchWholeWord w) t"
  have "start \<le> (if 0 < ?n then start + of_nat ?n * weight else start)"
    using Cons.prems by simp
  also have "\<dots> \<le> foldl (\<lambda>acc word.
              let matches = countMatches (matchWholeWord word) t in
              if 0 < matches then acc + of_nat matches * weight else acc)
       (if 0 < ?n then start + of_nat ?n * weight else start) ws"
    by (rule Cons.IH [OF Cons.prems])
  finally show ?case by (simp add: Let_def)
qed

lemma analyzeSentenceStructure_nonneg:
  "analyzeSentenceStructure s = (a, b, c) \<Longrightarrow> 0 \<le> a \<and> 0 \<le> b \<and> 0 \<le> c"
  by (auto simp: analyzeSentenceStructure_def Let_def split: if_splits)

lemma sentences_fold_ge:
  "foldl (\<lambda>(p, n, u) sentence.
             let (sp, sn, su) = analyzeSentenceStructure sentence
             in (p + sp, n + sn, u + su)) (p0, n0, u0) ss = (p, n, u)
   \<Longrightarrow> p0 \<le> p \<and> n0 \<le> n \<and> u0 \<le> u"
proof (induction ss arbitrary: p0 n0 u0)
  case Nil
  then show ?case by simp
next
  case (Cons s ss)
  obtain a b c where abc: "analyzeSentenceStructure s = (a, b, c)"
    by (cases "analyzeSentenceStructure s") auto
  from Cons.prems abc have
    "foldl (\<lambda>(p, n, u) sentence.
             let (sp, sn, su) = analyzeSentenceStructure sentence
             in (p + sp, n + sn, u + su)) (p0 + a, n0 + b, u0 + c) ss = (p, n, u)"
    by simp
  from Cons.IH [OF this] analyzeSentenceStructure_nonneg [OF abc]
  show ?case by simp
qed

lemma no_markers:
  "includesStr (toLowerCase s) ''POSITIVE_EMOJI'' = False"
  "includesStr (toLowerCase s) ''LOVE_EMOJI'' = False"
  "includesStr (toLowerCase s) ''POSITIVE_EMOTICON'' = False"
  "includesStr (toLowerCase s) ''NEGATIVE_EMOJI'' = False"
  "includesStr (toLowerCase s) ''ANGER_EMOJI'' = False"
  "includesStr (toLowerCase s) ''NEGATIVE_EMOTICON'' = False"
  "includesStr (toLowerCase s) ''EXCITEMENT'' = False"
  using includesStr_lower [of "CHR ''P''" "''POSITIVE_EMOJI''" s]
    includesStr_lower [of "CHR ''L''" "''LOVE_EMOJI''" s]
    includesStr_lower [of "CHR ''P''" "''POSITIVE_EMOTICON''" s]
    includesStr_lower [of "CHR ''N''" "''NEGATIVE_EMOJI''" s]
    includesStr_lower [of "CHR ''A''" "''ANGER_EMOJI''" s]
    includesStr_lower [of "CHR ''N''" "''NEGATIVE_EMOTICON''" s]
    includesStr_lower [of "CHR ''E''" "''EXCITEMENT''" s]
  by (simp_all add: isUpper_def)

lemma extractTextFeatures_eq:
  "extractTextFeatures pt t =
     (case (if 1 < length (sentencesOf t) then addSentences (wordScores t) (sentencesOf t)
            else wordScores t) of
        (p, n, u) \<Rightarrow> \<lparr>positiveScore = p, negativeScore = n, neutralScore = u,
                      hasNegation = False, hasIntensifier = False, hasDiminisher = False\<rparr>)"
  unfolding extractTextFeatures_def sentencesOf_def wordScores_def addSentences_def
  by (simp add: Let_def no_NOT no_INTENSIFIER no_DIMINISHER no_markers)

lemma wordScores_bounds: "wordScores t = (p, n, u) \<Longrightarrow> 0 \<le> p \<and> 0 \<le> n \<and> 0.3 \<le> u"
  unfolding wordScores_def
  using countWords_ge [of "0.4" 0 positiveWords "toLowerCase t"]
    countWords_ge [of "0.4" 0 negativeWords "toLowerCase t"]
    countWords_ge [of "0.3" "0.3" neutralWords "toLowerCase t"]
  by auto

lemma extractTextFeatures_bounds:
  "0 \<le> positiveScore (extractTextFeatures pt t)
   \<and> 0 \<le> negativeScore (extractTextFeatures pt t)
   \<and> 0.3 \<le> neutralScore (extractTextFeatures pt t)"
proof -
  obtain p0 n0 u0 where w: "wordScores t = (p0, n0, u0)"
    by (cases "wordScores t") auto
  obtain p n u where a: "addSentences (p0, n0, u0) (sentencesOf t) = (p, n, u)"
    by (cases "addSentences (p0, n0, u0) (sentencesOf t)") auto
  have b0: "0 \<le> p0 \<and> 0 \<le> n0 \<and> 0.3 \<le> u0"
    using w by (rule wordScores_bounds)
  have "p0 \<le> p \<and> n0 \<le> n \<and> u0 \<le> u"
    using a unfolding addSentences_def by (rule sentences_fold_ge)
  with b0 have b: "0 \<le> p \<and> 0 \<le> n \<and> 0.3 \<le> u" by simp
  show ?thesis
  proof (cases "1 < length (sentencesOf t)")
    case True
    then show ?thesis using b by (simp add: extractTextFeatures_eq w a)
  next
    case False
    then show ?thesis using b0 by (simp add: extractTextFeatures_eq w)
  qed
qed

lemma adjustScores_bounds:
  assumes "0 \<le> positiveScore f" and "0 \<le> negativeScore f" and "0.3 \<le> neutralScore f"
    and "adjustScores f = (p, n, u)"
  shows "0 \<le> p \<and> 0 \<le> n \<and> 0.3 \<le> u"
  using assms by (auto simp: adjustScores_def Let_def split: if_splits)

lemma scoreFeatures_positive_total:
  assumes "adjustScores f = (p, n, u)" and "p + n + u \<noteq> 0"
  shows "scoreFeatures f =
           sortByScore [\<lparr>label = ''LABEL_2'', score = p / (p + n + u)\<rparr>,
                        \<lparr>label = ''LABEL_0'', score = n / (p + n + u)\<rparr>,
                        \<lparr>label = ''LABEL_1'', score = u / (p + n + u)\<rparr>]"
  using assms by (simp add: scoreFeatures_def Let_def)


lemma zero_signal_result:
  assumes "positiveScore (extractTextFeatures pt t) = 0"
    and "negativeScore (extractTextFeatures pt t) = 0"
  shows "getEnhancedMockSentiment pt t =
           [\<lparr>label = ''LABEL_1'', score = 1\<rparr>, \<lparr>label = ''LABEL_2'', score = 0\<rparr>,
            \<lparr>label = ''LABEL_0'', score = 0\<rparr>]"
proof -
  let ?f = "extractTextFeatures pt t"
  have u: "0.3 \<le> neutralScore ?f"
    using extractTextFeatures_bounds [of pt t] by simp
  have a: "adjustScores ?f = (0, 0, neutralScore ?f)"
    using assms by (simp add: adjustScores_def flags_never_set)
  have nz: "0 + 0 + neutralScore ?f \<noteq> 0" using u by auto
  have "getEnhancedMockSentiment pt t =
          sortByScore [\<lparr>label = ''LABEL_2'', score = 0 / (0 + 0 + neutralScore ?f)\<rparr>,
                       \<lparr>label = ''LABEL_0'', score = 0 / (0 + 0 + neutralScore ?f)\<rparr>,
                       \<lparr>label = ''LABEL_1'', score = neutralScore ?f / (0 + 0 + neutralScore ?f)\<rparr>]"
    unfolding getEnhancedMockSentiment_def using a nz by (rule scoreFeatures_positive_total)
  then show ?thesis using nz by (simp add: sortByScore_def)
qed

lemma wordScores_meeting: "wordScores ''The meeting is at 3pm'' = (0, 0, 0.3)"
  by code_simp

lemma sentencesOf_meeting: "sentencesOf ''The meeting is at 3pm'' = [''The meeting is at 3pm'']"
  by code_simp

lemma features_meeting:
  "extractTextFeatures pt ''The meeting is at 3pm'' =
     \<lparr>positiveScore = 0, negativeScore = 0, neutralScore = 0.3,
      hasNegation = False, hasIntensifier = False, hasDiminisher = False\<rparr>"
  by (simp add: extractTextFeatures_eq wordScores_meeting sentencesOf_meeting)

text \<open>
  Claim C2, amended. An input whose positive and negative feature scores are both zero
  (a zero-signal input such as "The meeting is at 3pm") gets neutral 1, positive 0,
  negative 0 from the local estimator, in this order. The fixed default distribution is
  what the scoring step returns for features whose adjusted scores sum to zero.
\<close>

theorem zero_signal_distribution:
  "(positiveScore (extractTextFeatures pt t) = 0 \<and> negativeScore (extractTextFeatures pt t) = 0
      \<longrightarrow> getEnhancedMockSentiment pt t =
            [\<lparr>label = ''LABEL_1'', score = 1\<rparr>, \<lparr>label = ''LABEL_2'', score = 0\<rparr>,
             \<lparr>label = ''LABEL_0'', score = 0\<rparr>])
   \<and> ((case adjustScores f of (p, n, u) \<Rightarrow> p + n + u = 0) \<longrightarrow> scoreFeatures f = defaultDistribution)"
  using zero_signal_result [of pt t]
  by (auto simp: scoreFeatures_def Let_def split: prod.splits)

theorem zero_signal_distribution_witness:
  "positiveScore (extractTextFeatures (preprocessText ''The meeting is at 3pm'') ''The meeting is at 3pm'') = 0
   \<and> negativeScore (extractTextFeatures (preprocessText ''The meeting is at 3pm'') ''The meeting is at 3pm'') = 0
   \<and> getEnhancedMockSentiment (preprocessText ''The meeting is at 3pm'') ''The meeting is at 3pm'' =
        [\<lparr>label = ''LABEL_1'', score = 1\<rparr>, \<lparr>label = ''LABEL_2'', score = 0\<rparr>,
         \<lparr>label = ''LABEL_0'', score = 0\<rparr>]
   \<and> (case adjustScores \<lparr>positiveScore = 0, negativeScore = 0, neutralScore = 0,
          hasNegation = False, hasIntensifier = False, hasDiminisher = False\<rparr>
        of (p, n, u) \<Rightarrow> p + n + u = 0)
   \<and> scoreFeatures \<lparr>positiveScore = 0, negativeScore = 0, neutralScore = 0,
          hasNegation = False, hasIntensifier = False, hasDiminisher = False\<rparr> = defaultDistribution"
  using zero_signal_distribution [of "preprocessText ''The meeting is at 3pm''" "''The meeting is at 3pm''"
      "\<lparr>positiveScore = 0, negativeScore = 0, neutralScore = 0,
          hasNegation = False, hasIntensifier = False, hasDiminisher = False\<rparr>"]
  by (simp add: features_meeting adjustScores_def)

text \<open>
  Claim C2 as stated fails: the zero-signal example does not get the default
  distribution (neutral 0.6, positive 0.25, negative 0.15).
\<close>

theorem zero_signal_default_counterexample:
  "getEnhancedMockSentiment (preprocessText ''The meeting is at 3pm'') ''The meeting is at 3pm''
     \<noteq> [\<lparr>label = ''LABEL_1'', score = 0.6\<rparr>, \<lparr>label = ''LABEL_2'', score = 0.25\<rparr>,
         \<lparr>label = ''LABEL_0'', score = 0.15\<rparr>]"
  using zero_signal_result [of "preprocessText ''The meeting is at 3pm''" "''The meeting is at 3pm''"]
  by (simp add: features_meeting)

lemma wordScores_not_good: "wordScores ''This is not good'' = (0.4, 0, 0.3)"
  by code_simp

lemma sentencesOf_not_good: "sentencesOf ''This is not good'' = [''This is not good'']"
  by code_simp

lemma preprocessText_not_good: "preprocessText ''This is not good'' = ''This is NOT_good''"
  by code_simp

text \<open>
  Claim C1 at "This is not good", without a credential: the normalized text carries the
  sentinel \<open>NOT_\<close> and "good" adds 0.4 to the positive score, but the test for the
  sentinel runs on the lower-cased text and fails, no swap is applied, and the positive
  entry (4/7) stays above the negative one (0).
\<close>

theorem negation_not_detected:
  "preprocessText ''This is not good'' = ''This is NOT_good''
   \<and> extractTextFeatures (preprocessText ''This is not good'') ''This is not good'' =
       \<lparr>positiveScore = 0.4, negativeScore = 0, neutralScore = 0.3,
        hasNegation = False, hasIntensifier = False, hasDiminisher = False\<rparr>
   \<and> analyzeSentiment newService remote ''This is not good'' =
       ([], [\<lparr>label = ''LABEL_2'', score = 4 / 7\<rparr>, \<lparr>label = ''LABEL_1'', score = 3 / 7\<rparr>,
             \<lparr>label = ''LABEL_0'', score = 0\<rparr>])"
proof -
  have f: "extractTextFeatures pt ''This is not good'' =
       \<lparr>positiveScore = 0.4, negativeScore = 0, neutralScore = 0.3,
        hasNegation = False, hasIntensifier = False, hasDiminisher = False\<rparr>" for pt
    by (simp add: extractTextFeatures_eq wordScores_not_good sentencesOf_not_good)
  have "getEnhancedMockSentiment pt ''This is not good'' =
       [\<lparr>label = ''LABEL_2'', score = 4 / 7\<rparr>, \<lparr>label = ''LABEL_1'', score = 3 / 7\<rparr>,
        \<lparr>label = ''LABEL_0'', score = 0\<rparr>]" for pt
    by (simp add: getEnhancedMockSentiment_def scoreFeatures_def f adjustScores_def sortByScore_def)
  then show ?thesis
    by (simp add: preprocessText_not_good f analyzeSentiment_def newService_def Let_def)
qed

subsection \<open>Fusion, routing and batches\<close>









lemma isCombinedDistribution_sorted:
  assumes "0 \<le> a" and "0 \<le> b" and "0 \<le> c"
    and "{la, lb, lc} = {''LABEL_0'', ''LABEL_1'', ''LABEL_2''}"
  shows "isCombinedDistribution
           (sortByScore [\<lparr>label = la, score = a\<rparr>, \<lparr>label = lb, score = b\<rparr>,
                         \<lparr>label = lc, score = c\<rparr>])"
proof -
  let ?xs = "[\<lparr>label = la, score = a\<rparr>, \<lparr>label = lb, score = b\<rparr>, \<lparr>label = lc, score = c\<rparr>]"
  have "set (map label (sortByScore ?xs)) = label ` set ?xs"
    by (simp only: set_map sortByScore_set)
  also have "\<dots> = {la, lb, lc}" by simp
  finally have l: "set (map label (sortByScore ?xs)) = {''LABEL_0'', ''LABEL_1'', ''LABEL_2''}"
    using assms(4) by simp
  have "\<forall>x \<in> set (sortByScore ?xs). 0 \<le> score x"
    unfolding sortByScore_set using assms(1-3) by simp
  then have n: "list_all (\<lambda>x. 0 \<le> score x) (sortByScore ?xs)"
    by (simp add: list_all_iff)
  show ?thesis
    unfolding isCombinedDistribution_def
    using l n sortByScore_descending [of ?xs] by (simp add: sortByScore_length)
qed

lemma mock_shape:
  "\<exists>p n u. 0 \<le> p \<and> 0 \<le> n \<and> 0.3 \<le> u
     \<and> adjustScores (extractTextFeatures pt t) = (p, n, u)
     \<and> getEnhancedMockSentiment pt t =
         sortByScore [\<lparr>label = ''LABEL_2'', score = p / (p + n + u)\<rparr>,
                      \<lparr>label = ''LABEL_0'', score = n / (p + n + u)\<rparr>,
                      \<lparr>label = ''LABEL_1'', score = u / (p + n + u)\<rparr>]"
proof -
  obtain p n u where a: "adjustScores (extractTextFeatures pt t) = (p, n, u)"
    by (cases "adjustScores (extractTextFeatures pt t)") auto
  have b: "0 \<le> p \<and> 0 \<le> n \<and> 0.3 \<le> u"
    using extractTextFeatures_bounds [of pt t] a by (intro adjustScores_bounds) auto
  then have nz: "p + n + u \<noteq> 0" by auto
  have "getEnhancedMockSentiment pt t =
            sortByScore [\<lparr>label = ''LABEL_2'', score = p / (p + n + u)\<rparr>,
                         \<lparr>label = ''LABEL_0'', score = n / (p + n + u)\<rparr>,
                         \<lparr>label = ''LABEL_1'', score = u / (p + n + u)\<rparr>]"
    unfolding getEnhancedMockSentiment_def using a nz by (rule scoreFeatures_positive_total)
  with a b show ?thesis by blast
qed

lemma mock_distribution: "isCombinedDistribution (getEnhancedMockSentiment pt t)"
proof -
  obtain p n u where b: "0 \<le> p" "0 \<le> n" "0.3 \<le> u"
    and r: "getEnhancedMockSentiment pt t =
         sortByScore [\<lparr>label = ''LABEL_2'', score = p / (p + n + u)\<rparr>,
                      \<lparr>label = ''LABEL_0'', score = n / (p + n + u)\<rparr>,
                      \<lparr>label = ''LABEL_1'', score = u / (p + n + u)\<rparr>]"
    using mock_shape [of pt t] by blast
  have t: "0 < p + n + u" using b by simp
  have "0 \<le> p / (p + n + u)" "0 \<le> n / (p + n + u)" "0 \<le> u / (p + n + u)"
    using b t by simp_all
  then show ?thesis
    unfolding r by (rule isCombinedDistribution_sorted) auto
qed







text \<open>
  Claim C7. Without a credential \<open>analyzeSentiment\<close> posts to no endpoint and returns
  the local estimator's output; when both remote outcomes are empty it returns the local
  estimator's output as well; and that output always has three entries.
\<close>

theorem analyzeSentiment_falls_back:
  "(apiToken svc = [] \<or> apiToken svc = ''hf_dummy_token''
      \<longrightarrow> analyzeSentiment svc remote text = ([], getEnhancedMockSentiment (preprocessText text) text))
   \<and> (callSentimentAPI svc remote (preprocessText text) SENTIMENT_MODELS_primary = []
       \<and> callSentimentAPI svc remote (preprocessText text) SENTIMENT_MODELS_secondary = []
      \<longrightarrow> snd (analyzeSentiment svc remote text) = getEnhancedMockSentiment (preprocessText text) text)
   \<and> length (getEnhancedMockSentiment (preprocessText text) text) = 3"
proof -
  have "length (getEnhancedMockSentiment (preprocessText text) text) = 3"
    using mock_distribution [of "preprocessText text" "text"]
    by (simp add: isCombinedDistribution_def)
  then show ?thesis
    by (auto simp: analyzeSentiment_def Let_def)
qed

theorem analyzeSentiment_falls_back_witness:
  "apiToken newService = ''hf_dummy_token''
   \<and> analyzeSentiment newService bothRemote ''ok'' = ([], getEnhancedMockSentiment (preprocessText ''ok'') ''ok'')
   \<and> callSentimentAPI tokenService failingRemote (preprocessText ''ok'') SENTIMENT_MODELS_primary = []
   \<and> callSentimentAPI tokenService failingRemote (preprocessText ''ok'') SENTIMENT_MODELS_secondary = []
   \<and> snd (analyzeSentiment tokenService failingRemote ''ok'') = getEnhancedMockSentiment (preprocessText ''ok'') ''ok''
   \<and> length (getEnhancedMockSentiment (preprocessText ''ok'') ''ok'') = 3"
proof -
  have c: "callSentimentAPI tokenService failingRemote pt url = []" for pt url
    by (simp add: callSentimentAPI_def failingRemote_def)
  have t: "apiToken newService = ''hf_dummy_token''"
    by (simp add: newService_def)
  show ?thesis
    using analyzeSentiment_falls_back [of newService bothRemote "''ok''"]
      analyzeSentiment_falls_back [of tokenService failingRemote "''ok''"]
    by (simp add: c t)
qed

lemma analyzeBatch_loop_map:
  "analyzeBatch_loop svc remote texts i results =
     results @ map (\<lambda>text. snd (analyzeSentiment svc remote text)) (drop i texts)"
proof (induction svc remote texts i results rule: analyzeBatch_loop.induct)
  case (1 svc remote texts i results)
  show ?case
  proof (cases "i < length texts")
    case True
    have "take 3 (drop i texts) @ drop (i + 3) texts = drop i texts"
      by (metis add.commute append_take_drop_id drop_drop)
    then have "map (\<lambda>text. snd (analyzeSentiment svc remote text)) (take 3 (drop i texts))
               @ map (\<lambda>text. snd (analyzeSentiment svc remote text)) (drop (i + 3) texts)
             = map (\<lambda>text. snd (analyzeSentiment svc remote text)) (drop i texts)"
      by (metis map_append)
    then show ?thesis
      using True "1.IH" [OF True refl refl]
      by (subst analyzeBatch_loop.simps) (simp add: Let_def)
  next
    case False
    then show ?thesis
      by (subst analyzeBatch_loop.simps) simp
  qed
qed

text \<open>
  Claim C8. \<open>analyzeBatch\<close> returns one result per input text, the i-th being the
  analysis of the i-th text.
\<close>

theorem analyzeBatch_in_order:
  "analyzeBatch svc remote texts = map (\<lambda>text. snd (analyzeSentiment svc remote text)) texts
   \<and> length (analyzeBatch svc remote texts) = length texts"
  by (simp add: analyzeBatch_def analyzeBatch_loop_map del: analyzeBatch_loop.simps)

subsection \<open>Keywords\<close>

lemma uniqueOf_fold_set:
  "set (foldl (\<lambda>seen x. if x \<in> set seen then seen else seen @ [x]) acc xs) = set acc \<union> set xs"
  by (induction xs arbitrary: acc) auto

lemma uniqueOf_set: "set (uniqueOf xs) = set xs"
  by (simp add: uniqueOf_def uniqueOf_fold_set)

lemma rankedKeywords_relevant:
  assumes "k \<in> fst ` set (rankedKeywords t sentiment)"
  shows "k \<notin> set stopWords"
proof -
  let ?words = "tokenize (preprocessText t)"
  have "fst ` set (rankedKeywords t sentiment) = set (uniqueOf (filter (isRelevant ?words sentiment) ?words))"
    by (simp add: rankedKeywords_def Let_def image_image)
  then have "k \<in> set (filter (isRelevant ?words sentiment) ?words)"
    using assms by (simp add: uniqueOf_set)
  then have "isRelevant ?words sentiment k" by simp
  then show ?thesis
    by (auto simp: isRelevant_def split: if_splits)
qed

text \<open>
  Claim C6. For every text and every sentiment label, \<open>extractKeywords\<close> returns at
  most 6 keywords, none of which contains an underscore or is a stop word.
\<close>

theorem extractKeywords_bounded:
  "length (extractKeywords t sentiment) \<le> 6
   \<and> (\<forall>k \<in> set (extractKeywords t sentiment). CHR ''_'' \<notin> set k \<and> k \<notin> set stopWords)"
proof -
  have "length (extractKeywords t sentiment) \<le> length (map fst (take 6 (rankedKeywords t sentiment)))"
    unfolding extractKeywords_def by (rule length_filter_le)
  then have len: "length (extractKeywords t sentiment) \<le> 6" by simp
  have "k \<notin> set stopWords" if "k \<in> set (extractKeywords t sentiment)" for k
  proof -
    from that have "k \<in> fst ` set (take 6 (rankedKeywords t sentiment))"
      by (auto simp: extractKeywords_def)
    then have "k \<in> fst ` set (rankedKeywords t sentiment)"
      using set_take_subset [of 6 "rankedKeywords t sentiment"] by blast
    then show ?thesis by (rule rankedKeywords_relevant)
  qed
  moreover have "CHR ''_'' \<notin> set k" if "k \<in> set (extractKeywords t sentiment)" for k
    using that by (simp add: extractKeywords_def)
  ultimately show ?thesis using len by blast
qed

lemma rankedKeywords_crowded:
  "map fst (rankedKeywords crowdedText ''positive'') =
     [''good'', ''love'', ''like'', ''not_bad'', ''okay'', ''fair'', ''hate'', ''poor'']"
  by code_simp

lemma extractKeywords_crowded:
  "extractKeywords crowdedText ''positive'' = [''good'', ''love'', ''like'', ''okay'', ''fair'']"
proof -
  have "map fst (take 6 (rankedKeywords crowdedText ''positive'')) =
          take 6 (map fst (rankedKeywords crowdedText ''positive''))"
    by (simp add: take_map)
  then show ?thesis
    by (simp add: extractKeywords_def rankedKeywords_crowded)
qed

theorem extractKeywords_bounded_witness:
  "length (extractKeywords crowdedText ''positive'') \<le> 6
   \<and> ''good'' \<in> set (extractKeywords crowdedText ''positive'')
   \<and> CHR ''_'' \<notin> set ''good'' \<and> ''good'' \<notin> set stopWords"
  using extractKeywords_bounded [of crowdedText "''positive''"]
  by (simp add: extractKeywords_crowded)


subsection \<open>Texts of word characters pass the normalizer unchanged\<close>






























end
